theory Spec2Isabelle
  imports Main "HOL-Library.Word"
begin

unbundle bit_operations_syntax

section \<open>Bytes, constants and errors of package metadata\<close>

text \<open>
  The subject is the Go package \<open>metadata\<close> (second file of \<open>src/main.go\<close>):
  \<open>AddPromptToPNG\<close>, \<open>createTextChunk\<close> and \<open>ReadPromptFromPNG\<close>.
  A Go \<open>[]byte\<close> and a Go \<open>string\<close> are both byte sequences; both are byte lists here.
  A file is the byte list of its content.
\<close>

type_synonym byte = "8 word"
type_synonym bytes = "byte list"
type_synonym uint32 = "32 word"

text \<open>\<open>[]byte{137, 80, 78, 71, 13, 10, 26, 10}\<close>, the PNG signature (lines 39 and 126).\<close>

definition PNGsig :: bytes where
  "PNGsig = [137, 80, 78, 71, 13, 10, 26, 10]"

text \<open>\<open>[]byte{0xFF, 0xD8}\<close>, the JPEG marker (line 44).\<close>

definition JPEGsig :: bytes where
  "JPEGsig = [0xFF, 0xD8]"

text \<open>The ASCII bytes of the string literals \<open>"tEXt"\<close>, \<open>"IEND"\<close> and \<open>"Prompt"\<close>.\<close>

definition tEXt :: bytes where
  "tEXt = [0x74, 0x45, 0x58, 0x74]"

definition IEND :: bytes where
  "IEND = [0x49, 0x45, 0x4E, 0x44]"

definition Prompt :: bytes where
  "Prompt = [0x50, 0x72, 0x6F, 0x6D, 0x70, 0x74]"

text \<open>
  \<open>io.EOF\<close> and \<open>io.ErrUnexpectedEOF\<close>, the two errors \<open>io.ReadFull\<close> returns on a
  file that ends too early.
\<close>

datatype io_error = EOF | ErrUnexpectedEOF

text \<open>
  One constructor for each error return of the two exported functions, in source order.
  \<open>IOError e\<close> is the bare \<open>return "", err\<close> of lines 138, 144, 150 and 156.
  Failures of \<open>os.ReadFile\<close>, \<open>os.Open\<close> and \<open>os.WriteFile\<close> belong to the file
  system and are outside the model: a call starts from the content read and ends with
  the content written.
\<close>

datatype error =
    NeitherPNGNorJPEG          \<comment> \<open>"file is neither PNG nor JPEG format"\<close>
  | ConvertFailed              \<comment> \<open>"failed to convert JPEG to PNG: ..."\<close>
  | PNGFileTooShort            \<comment> \<open>"PNG file too short"\<close>
  | ReadSignatureFailed io_error  \<comment> \<open>"failed to read PNG signature: ..."\<close>
  | NotValidPNG                \<comment> \<open>"not a valid PNG file"\<close>
  | NoPromptMetadata           \<comment> \<open>"no Prompt metadata found in PNG"\<close>
  | IOError io_error

section \<open>Library functions the package calls\<close>

text \<open>
  \<open>binary.Write(buf, binary.BigEndian, v)\<close> for a \<open>uint32\<close>: the four bytes
  \<open>byte(v >> 24), byte(v >> 16), byte(v >> 8), byte(v)\<close>.
\<close>

definition be32 :: "uint32 \<Rightarrow> bytes" where
  "be32 v = [ucast (drop_bit 24 v), ucast (drop_bit 16 v), ucast (drop_bit 8 v), ucast v]"

text \<open>
  \<open>binary.BigEndian.Uint32(b)\<close>, applied by \<open>binary.Read\<close> to the four bytes read:
  \<open>uint32(b[3]) | uint32(b[2])<<8 | uint32(b[1])<<16 | uint32(b[0])<<24\<close>.
  It is only ever called on exactly four bytes; any other list gives 0 here.
\<close>

fun Uint32 :: "bytes \<Rightarrow> uint32" where
  "Uint32 [b0, b1, b2, b3] =
     (ucast b3 OR push_bit 8 (ucast b2) OR push_bit 16 (ucast b1) OR push_bit 24 (ucast b0))"
| "Uint32 _ = 0"

text \<open>
  \<open>io.ReadFull(file, buf)\<close> with \<open>len(buf) = n\<close> on a file whose unread rest is \<open>r\<close>:
  the \<open>n\<close> bytes and the new rest, \<open>io.EOF\<close> when no byte could be read,
  \<open>io.ErrUnexpectedEOF\<close> when some but fewer than \<open>n\<close> could. For \<open>n = 0\<close> it
  succeeds without reading, also at the end of the file.
\<close>

definition ReadFull :: "nat \<Rightarrow> bytes \<Rightarrow> io_error + (bytes \<times> bytes)" where
  "ReadFull n r =
     (if n = 0 then Inr ([], r)
      else if r = [] then Inl EOF
      else if length r < n then Inl ErrUnexpectedEOF
      else Inr (take n r, drop n r))"

text \<open>\<open>bytes.IndexByte(b, c)\<close>: the index of the first \<open>c\<close> in \<open>b\<close>, or \<open>-1\<close>.\<close>

fun IndexByte :: "bytes \<Rightarrow> byte \<Rightarrow> int" where
  "IndexByte [] c = - 1"
| "IndexByte (x # xs) c =
     (if x = c then 0
      else (let i = IndexByte xs c in if i < 0 then - 1 else i + 1))"

text \<open>
  Modelled from the spec: \<open>crc32.ChecksumIEEE\<close> belongs to Go's standard library
  (\<open>hash/crc32\<close>), which is not part of the repository. The spec names it as the standard
  CRC-32 with the reflected polynomial \<open>0xEDB88320\<close> (IEEE 802.3). The definitions below
  are that algorithm in the shape of the library's table-driven code:
  \<open>crcTableEntry i\<close> is entry \<open>i\<close> of the table (eight shift-and-xor steps),
  \<open>crcUpdate\<close> is the loop \<open>crc = tab[byte(crc)^v] ^ (crc >> 8)\<close>, and
  \<open>ChecksumIEEE\<close> complements the register before and after.
\<close>

definition crcStep :: "uint32 \<Rightarrow> uint32" where
  "crcStep crc = (if crc AND 1 = 1 then drop_bit 1 crc XOR 0xEDB88320 else drop_bit 1 crc)"

definition crcTableEntry :: "byte \<Rightarrow> uint32" where
  "crcTableEntry i = (crcStep ^^ 8) (ucast i)"

fun crcUpdate :: "uint32 \<Rightarrow> bytes \<Rightarrow> uint32" where
  "crcUpdate crc [] = crc"
| "crcUpdate crc (v # p) = crcUpdate (crcTableEntry (ucast crc XOR v) XOR drop_bit 8 crc) p"

definition ChecksumIEEE :: "bytes \<Rightarrow> uint32" where
  "ChecksumIEEE p = NOT (crcUpdate (NOT 0) p)"

section \<open>createTextChunk (lines 87-111)\<close>

text \<open>
  \<open>chunkData\<close> is \<open>keyword\<close>, a null byte, \<open>text\<close>. The buffer receives
  \<open>uint32(len(chunkData))\<close> big-endian (the conversion keeps the low 32 bits of the
  length), the type \<open>"tEXt"\<close>, the data, and the CRC of type and data big-endian.
\<close>

definition createTextChunk :: "bytes \<Rightarrow> bytes \<Rightarrow> bytes" where
  "createTextChunk keyword text =
     (let chunkData = keyword @ [0] @ text;
          crcData = tEXt @ chunkData;
          crc = ChecksumIEEE crcData
      in be32 (of_nat (length chunkData)) @ tEXt @ chunkData @ be32 crc)"

section \<open>AddPromptToPNG (lines 31-83)\<close>

text \<open>
  Lines 64 to 75: the splice before the last twelve bytes, where the IEND chunk of a
  PNG file sits. \<open>data[:insertPos]\<close>, the new chunk, \<open>data[insertPos:]\<close>.
\<close>

definition insertBeforeIEND :: "bytes \<Rightarrow> bytes \<Rightarrow> error + bytes" where
  "insertBeforeIEND data textChunk =
     (if length data < 12 then Inl PNGFileTooShort
      else (let insertPos = length data - 12
            in Inr (take insertPos data @ textChunk @ drop insertPos data)))"

text \<open>
  The whole function on the content \<open>data\<close> of the file. \<open>convertJPEGToPNG\<close> decodes
  and re-encodes with Go's \<open>image/jpeg\<close> and \<open>image/png\<close>; it is a parameter here,
  giving the content of the converted file, or \<open>None\<close> when the conversion fails. The
  result is the content written back to the file.
\<close>

definition AddPromptToPNG :: "(bytes \<Rightarrow> bytes option) \<Rightarrow> bytes \<Rightarrow> bytes \<Rightarrow> error + bytes" where
  "AddPromptToPNG convertJPEGToPNG data prompt =
     (let isPNG = (length data \<ge> 8 \<and> take 8 data = PNGsig);
          isJPEG = (length data \<ge> 2 \<and> take 2 data = JPEGsig);
          textChunk = createTextChunk Prompt prompt
      in if \<not> isPNG then
           (if \<not> isJPEG then Inl NeitherPNGNorJPEG
            else (case convertJPEGToPNG data of
                    None \<Rightarrow> Inl ConvertFailed
                  | Some data' \<Rightarrow> insertBeforeIEND data' textChunk))
         else insertBeforeIEND data textChunk)"

section \<open>ReadPromptFromPNG (lines 114-177)\<close>

text \<open>
  One pass of the \<open>for\<close> loop on the unread rest \<open>r\<close> of the file: the length,
  the type, the data, the CRC (read and dropped), then the test for a \<open>tEXt\<close> chunk
  with keyword \<open>Prompt\<close>, then the test for \<open>IEND\<close>, then the next pass. Only
  \<open>io.EOF\<close> on the length is turned into the not-found error (line 135). The
  allocation \<open>make([]byte, length)\<close> is taken to succeed for every 32-bit length.
  Every pass consumes at least the eight bytes of length and type, so the loop ends on
  every file.
\<close>

function readChunks :: "bytes \<Rightarrow> error + bytes" where
  "readChunks r =
     (case ReadFull 4 r of
        Inl e \<Rightarrow> (if e = EOF then Inl NoPromptMetadata else Inl (IOError e))
      | Inr (lengthBytes, r1) \<Rightarrow>
     (case ReadFull 4 r1 of
        Inl e \<Rightarrow> Inl (IOError e)
      | Inr (chunkType, r2) \<Rightarrow>
     (case ReadFull (unat (Uint32 lengthBytes)) r2 of
        Inl e \<Rightarrow> Inl (IOError e)
      | Inr (chunkData, r3) \<Rightarrow>
     (case ReadFull 4 r3 of
        Inl e \<Rightarrow> Inl (IOError e)
      | Inr (crc, r4) \<Rightarrow>
          (let nullPos = IndexByte chunkData 0
           in if chunkType = tEXt \<and> nullPos > 0 \<and> take (nat nullPos) chunkData = Prompt
              then Inr (drop (nat nullPos + 1) chunkData)
              else if chunkType = IEND then Inl NoPromptMetadata
              else readChunks r4)))))"
  by pat_completeness auto
termination
proof (relation "measure length")
  show "wf (measure length)" by simp
next
  fix r x2 x y x2a xa ya x2b xb yb x2c xc yc xd
  assume a: "ReadFull 4 r = Inr x2" "(x, y) = x2"
    and b: "ReadFull 4 y = Inr x2a" "(xa, ya) = x2a"
    and c: "ReadFull (unat (Uint32 x)) ya = Inr x2b" "(xb, yb) = x2b"
    and d: "ReadFull 4 yb = Inr x2c" "(xc, yc) = x2c"
  from a have "length y < length r"
    by (auto simp: ReadFull_def split: if_splits)
  moreover from b have "length ya \<le> length y"
    by (auto simp: ReadFull_def split: if_splits)
  moreover from c have "length yb \<le> length ya"
    by (auto simp: ReadFull_def split: if_splits)
  moreover from d have "length yc \<le> length yb"
    by (auto simp: ReadFull_def split: if_splits)
  ultimately show "(yc, r) \<in> measure length" by simp
qed

text \<open>
  The function on the content \<open>file\<close>: the signature is read with \<open>io.ReadFull\<close>
  and compared, then the loop runs on the rest.
\<close>

definition ReadPromptFromPNG :: "bytes \<Rightarrow> error + bytes" where
  "ReadPromptFromPNG file =
     (case ReadFull 8 file of
        Inl e \<Rightarrow> Inl (ReadSignatureFailed e)
      | Inr (sig, r) \<Rightarrow>
          if sig \<noteq> PNGsig then Inl NotValidPNG else readChunks r)"

declare readChunks.simps [simp del]

section \<open>The container format\<close>

text \<open>
  The layout both functions work on: a chunk is a big-endian 32-bit length, a four-byte
  type, the data, and a big-endian 32-bit CRC. \<open>ReadPromptFromPNG\<close> reads these four
  fields in this order and \<open>createTextChunk\<close> writes them. A \<open>chunk\<close> holds the
  three fields that are not derived; the length is the length of the data.
\<close>

record chunk =
  ctype :: bytes
  cdata :: bytes
  ccrc :: uint32

definition chunkBytes :: "chunk \<Rightarrow> bytes" where
  "chunkBytes c = be32 (of_nat (length (cdata c))) @ ctype c @ cdata c @ be32 (ccrc c)"

text \<open>
  A chunk that a file can hold: the type has four bytes and the length of the data fits
  the 32-bit length field.
\<close>

definition wfChunk :: "chunk \<Rightarrow> bool" where
  "wfChunk c \<longleftrightarrow> length (ctype c) = 4 \<and> length (cdata c) < 2 ^ 32"

text \<open>The CRC field holds the checksum of type and data.\<close>

definition crcOK :: "chunk \<Rightarrow> bool" where
  "crcOK c \<longleftrightarrow> ccrc c = ChecksumIEEE (ctype c @ cdata c)"

text \<open>
  The terminal chunk, twelve bytes: length 0, type \<open>IEND\<close>, CRC \<open>AE 42 60 82\<close>.
\<close>

definition IENDchunk :: bytes where
  "IENDchunk = [0, 0, 0, 0, 0x49, 0x45, 0x4E, 0x44, 0xAE, 0x42, 0x60, 0x82]"

text \<open>
  A container: the signature, the chunks before the terminal chunk in file order, the
  terminal chunk. The valid containers are the buffers \<open>Container cs\<close> with
  \<open>validChunks cs\<close>: every chunk fits the format and none before the terminal chunk
  has the terminal type. The theorems below do not ask for correct CRCs in \<open>cs\<close>, so
  they hold for containers with correct CRCs in particular.
\<close>

definition Container :: "chunk list \<Rightarrow> bytes" where
  "Container cs = PNGsig @ concat (map chunkBytes cs) @ IENDchunk"

definition validChunks :: "chunk list \<Rightarrow> bool" where
  "validChunks cs \<longleftrightarrow> (\<forall>c \<in> set cs. wfChunk c \<and> ctype c \<noteq> IEND)"

text \<open>
  The metadata record of a chunk: a \<open>tEXt\<close> chunk whose data is \<open>Prompt\<close>, a null
  byte, and the text. \<open>firstPrompt\<close> is the text of the first such chunk in file order.
\<close>

definition promptText :: "chunk \<Rightarrow> bytes option" where
  "promptText c =
     (if ctype c = tEXt \<and> take 7 (cdata c) = Prompt @ [0] then Some (drop 7 (cdata c))
      else None)"

fun firstPrompt :: "chunk list \<Rightarrow> bytes option" where
  "firstPrompt [] = None"
| "firstPrompt (c # cs) = (case promptText c of Some t \<Rightarrow> Some t | None \<Rightarrow> firstPrompt cs)"

text \<open>The chunk that \<open>createTextChunk "Prompt" text\<close> encodes.\<close>

definition promptChunk :: "bytes \<Rightarrow> chunk" where
  "promptChunk text =
     \<lparr>ctype = tEXt, cdata = Prompt @ [0] @ text,
      ccrc = ChecksumIEEE (tEXt @ Prompt @ [0] @ text)\<rparr>"

text \<open>
  Bytes that begin a chunk and end before the chunk does: not empty, and shorter than the
  eight bytes of length and type, or shorter than the twelve bytes plus the length they
  declare.
\<close>

definition incompleteChunk :: "bytes \<Rightarrow> bool" where
  "incompleteChunk bs \<longleftrightarrow>
     bs \<noteq> [] \<and> (length bs < 8 \<or> length bs < 12 + unat (Uint32 (take 4 bs)))"

section \<open>Sample chunks and containers\<close>

text \<open>
  A \<open>tEXt\<close> chunk with another keyword: \<open>Title\<close>, a null byte, \<open>x\<close>, with its
  correct CRC.
\<close>

definition titleChunk :: chunk where
  "titleChunk = \<lparr>ctype = tEXt, cdata = [0x54, 0x69, 0x74, 0x6C, 0x65, 0, 0x78],
                  ccrc = 0x297E4D3A\<rparr>"



text \<open>
  The minimal container (signature and terminal chunk), the text \<open>a sunset\<close>, and the
  47 bytes that embedding the text into the minimal container gives.
\<close>

definition minimalPNG :: bytes where
  "minimalPNG = [0x89, 0x50, 0x4E, 0x47, 0x0D, 0x0A, 0x1A, 0x0A,
                 0x00, 0x00, 0x00, 0x00, 0x49, 0x45, 0x4E, 0x44, 0xAE, 0x42, 0x60, 0x82]"

definition aSunset :: bytes where
  "aSunset = [0x61, 0x20, 0x73, 0x75, 0x6E, 0x73, 0x65, 0x74]"

definition sunsetPNG :: bytes where
  "sunsetPNG = [0x89, 0x50, 0x4E, 0x47, 0x0D, 0x0A, 0x1A, 0x0A,
                0x00, 0x00, 0x00, 0x0F, 0x74, 0x45, 0x58, 0x74,
                0x50, 0x72, 0x6F, 0x6D, 0x70, 0x74, 0x00,
                0x61, 0x20, 0x73, 0x75, 0x6E, 0x73, 0x65, 0x74,
                0x04, 0x3B, 0x4B, 0x64,
                0x00, 0x00, 0x00, 0x00, 0x49, 0x45, 0x4E, 0x44, 0xAE, 0x42, 0x60, 0x82]"

text \<open>
  A \<open>Prompt\<close> chunk with the text \<open>a sunset\<close> whose CRC field is wrong: the
  checksum of its type and data is \<open>0x043B4B64\<close>.
\<close>

definition corruptChunk :: chunk where
  "corruptChunk = \<lparr>ctype = tEXt, cdata = Prompt @ [0] @ aSunset, ccrc = 0xDEADBEEF\<rparr>"

section \<open>Facts about the library functions\<close>

lemma Uint32_be32: "Uint32 (be32 v) = v"
  unfolding be32_def Uint32.simps
proof (rule bit_word_eqI)
  fix n :: nat assume "n < LENGTH(32)"
  then have n: "n < 32" by simp
  consider "n < 8" | "8 \<le> n" "n < 16" | "16 \<le> n" "n < 24" | "24 \<le> n" "n < 32"
    using n by linarith
  then show "bit (ucast (ucast v :: byte) OR push_bit 8 (ucast (ucast (drop_bit 8 v) :: byte)) OR
        push_bit 16 (ucast (ucast (drop_bit 16 v) :: byte)) OR
        push_bit 24 (ucast (ucast (drop_bit 24 v) :: byte)) :: uint32) n = bit v n"
    by cases (auto simp: bit_simps)
qed

lemma length_be32 [simp]: "length (be32 v) = 4"
  by (simp add: be32_def)

lemma ReadFull_append: "length a = n \<Longrightarrow> ReadFull n (a @ r) = Inr (a, r)"
  by (auto simp: ReadFull_def)


lemma IndexByte_append: "c \<notin> set a \<Longrightarrow> IndexByte (a @ c # r) c = int (length a)"
  by (induction a) (auto simp: Let_def)

lemma IndexByte_found:
  "0 \<le> IndexByte d c \<Longrightarrow> nat (IndexByte d c) < length d \<and> d ! nat (IndexByte d c) = c"
proof (induction d)
  case Nil
  then show ?case by simp
next
  case (Cons x d)
  show ?case
  proof (cases "x = c")
    case True
    then show ?thesis by simp
  next
    case False
    with Cons.prems have nn: "0 \<le> IndexByte d c"
      by (auto simp: Let_def split: if_splits)
    with False have "IndexByte (x # d) c = IndexByte d c + 1"
      by (simp add: Let_def)
    moreover have "nat (IndexByte d c + 1) = Suc (nat (IndexByte d c))"
      using nn by simp
    ultimately show ?thesis using Cons.IH [OF nn] by simp
  qed
qed

text \<open>Evaluation of the checksum on byte literals, one table entry at a time.\<close>

lemma crcStep_numeral:
  "crcStep (numeral n) =
     (if (numeral n :: uint32) AND 1 = 1 then drop_bit 1 (numeral n) XOR 0xEDB88320
      else drop_bit 1 (numeral n))"
  "crcStep 0 = 0"
  "crcStep 1 = 0xEDB88320"
  by (simp_all add: crcStep_def)

lemma crcTableEntry_unfold:
  "crcTableEntry i =
     crcStep (crcStep (crcStep (crcStep (crcStep (crcStep (crcStep (crcStep (ucast i))))))))"
  by (simp add: crcTableEntry_def eval_nat_numeral)

lemma ChecksumIEEE_alt: "ChecksumIEEE p = crcUpdate 0xFFFFFFFF p XOR 0xFFFFFFFF"
proof -
  have "(0xFFFFFFFF :: uint32) = - 1" by simp
  then show ?thesis by (simp only: ChecksumIEEE_def bit.compl_zero bit.xor_one_right)
qed

lemmas crc_eval =
  ChecksumIEEE_alt crcStep_numeral
  crcTableEntry_unfold [of "numeral n" for n] crcTableEntry_unfold [of 0]
  crcTableEntry_unfold [of 1]

text \<open>
  The check value of CRC-32/IEEE 802.3 on the ASCII digits \<open>123456789\<close>, and the CRC
  of the terminal chunk as every PNG file carries it.
\<close>

lemma ChecksumIEEE_check_value:
  "ChecksumIEEE [0x31, 0x32, 0x33, 0x34, 0x35, 0x36, 0x37, 0x38, 0x39] = 0xCBF43926"
  by (simp add: crc_eval)

lemma ChecksumIEEE_IEND: "ChecksumIEEE IEND = 0xAE426082"
  by (simp add: IEND_def crc_eval)

section \<open>Facts about the constants\<close>

lemma length_Prompt [simp]: "length Prompt = 6"
  by (simp add: Prompt_def)

lemma length_tEXt [simp]: "length tEXt = 4"
  by (simp add: tEXt_def)

lemma length_IEND [simp]: "length IEND = 4"
  by (simp add: IEND_def)

lemma length_PNGsig [simp]: "length PNGsig = 8"
  by (simp add: PNGsig_def)

lemma length_IENDchunk [simp]: "length IENDchunk = 12"
  by (simp add: IENDchunk_def)

lemma zero_notin_Prompt: "0 \<notin> set Prompt"
  by (simp add: Prompt_def)

lemma tEXt_neq_IEND: "tEXt \<noteq> IEND"
  by (simp add: tEXt_def IEND_def)

lemma IENDchunk_chunkBytes:
  "IENDchunk = chunkBytes \<lparr>ctype = IEND, cdata = [], ccrc = ChecksumIEEE IEND\<rparr>"
  by (simp add: chunkBytes_def ChecksumIEEE_IEND) (simp add: IENDchunk_def IEND_def be32_def)

section \<open>One pass of the read loop over an encoded chunk\<close>

text \<open>
  The test of lines 162 to 165 (\<open>nullPos > 0\<close> and \<open>keyword == "Prompt"\<close>) holds
  exactly when the data begins with \<open>Prompt\<close> and a null byte.
\<close>

lemma keyword_match_iff:
  "(0 < IndexByte d 0 \<and> take (nat (IndexByte d 0)) d = Prompt) \<longleftrightarrow> take 7 d = Prompt @ [0]"
proof
  assume a: "0 < IndexByte d 0 \<and> take (nat (IndexByte d 0)) d = Prompt"
  define k where "k = nat (IndexByte d 0)"
  from a have "0 \<le> IndexByte d 0" by simp
  from IndexByte_found [OF this] have k: "k < length d" "d ! k = 0"
    by (simp_all add: k_def)
  from a have tk: "take k d = Prompt" by (simp add: k_def)
  then have "length (take k d) = 6" by simp
  with k have "k = 6" by simp
  with k tk show "take 7 d = Prompt @ [0]"
    using take_Suc_conv_app_nth [of 6 d] by (simp add: eval_nat_numeral)
next
  assume a: "take 7 d = Prompt @ [0]"
  have "d = (Prompt @ [0]) @ drop 7 d"
    using append_take_drop_id [of 7 d] a by simp
  then have d: "d = Prompt @ 0 # drop 7 d" by simp
  have "IndexByte (Prompt @ 0 # drop 7 d) 0 = 6"
    using IndexByte_append [OF zero_notin_Prompt] by simp
  with d have i: "IndexByte d 0 = 6" by simp
  have "take 6 (Prompt @ 0 # drop 7 d) = Prompt" by simp
  with d have "take 6 d = Prompt" by simp
  with i show "0 < IndexByte d 0 \<and> take (nat (IndexByte d 0)) d = Prompt" by simp
qed

lemma keyword_match_index:
  assumes "take 7 d = Prompt @ [0]"
  shows "IndexByte d 0 = 6"
proof -
  have "d = (Prompt @ [0]) @ drop 7 d"
    using append_take_drop_id [of 7 d] assms by simp
  then have d: "d = Prompt @ 0 # drop 7 d" by simp
  have "IndexByte (Prompt @ 0 # drop 7 d) 0 = 6"
    using IndexByte_append [OF zero_notin_Prompt] by simp
  with d show ?thesis by simp
qed

lemma readChunks_unfold:
  assumes "wfChunk c"
  shows "readChunks (chunkBytes c @ rest) =
      (if ctype c = tEXt \<and> 0 < IndexByte (cdata c) 0
           \<and> take (nat (IndexByte (cdata c) 0)) (cdata c) = Prompt
       then Inr (drop (nat (IndexByte (cdata c) 0) + 1) (cdata c))
       else if ctype c = IEND then Inl NoPromptMetadata else readChunks rest)"
proof -
  from assms have len: "unat (of_nat (length (cdata c)) :: uint32) = length (cdata c)"
    and ty: "length (ctype c) = 4"
    by (simp_all add: wfChunk_def unat_of_nat)
  have r1: "ReadFull 4 (chunkBytes c @ rest) =
      Inr (be32 (of_nat (length (cdata c))), ctype c @ cdata c @ be32 (ccrc c) @ rest)"
    by (simp add: chunkBytes_def ReadFull_append)
  have r2: "ReadFull 4 (ctype c @ cdata c @ be32 (ccrc c) @ rest) =
      Inr (ctype c, cdata c @ be32 (ccrc c) @ rest)"
    using ty by (simp add: ReadFull_append)
  have r3: "ReadFull (length (cdata c)) (cdata c @ be32 (ccrc c) @ rest) =
      Inr (cdata c, be32 (ccrc c) @ rest)"
    by (simp add: ReadFull_append)
  have r4: "ReadFull 4 (be32 (ccrc c) @ rest) = Inr (be32 (ccrc c), rest)"
    by (simp add: ReadFull_append)
  show ?thesis
    by (subst readChunks.simps)
      (simp only: r1 r2 r3 r4 sum.case prod.case Uint32_be32 len Let_def)
qed

lemma readChunks_chunk:
  assumes "wfChunk c"
  shows "readChunks (chunkBytes c @ rest) =
     (case promptText c of
        Some t \<Rightarrow> Inr t
      | None \<Rightarrow> if ctype c = IEND then Inl NoPromptMetadata else readChunks rest)"
proof (cases "take 7 (cdata c) = Prompt @ [0]")
  case True
  then have "0 < IndexByte (cdata c) 0 \<and> take (nat (IndexByte (cdata c) 0)) (cdata c) = Prompt"
    by (simp only: keyword_match_iff)
  moreover have "IndexByte (cdata c) 0 = 6"
    using True by (rule keyword_match_index)
  ultimately show ?thesis
    using True by (simp add: readChunks_unfold [OF assms] promptText_def tEXt_neq_IEND)
next
  case False
  then have "\<not> (0 < IndexByte (cdata c) 0 \<and> take (nat (IndexByte (cdata c) 0)) (cdata c) = Prompt)"
    by (simp only: keyword_match_iff not_False_eq_True)
  then show ?thesis
    using False by (auto simp add: readChunks_unfold [OF assms] promptText_def)
qed

section \<open>The read loop over a sequence of chunks\<close>

lemma readChunks_Nil: "readChunks [] = Inl NoPromptMetadata"
  by (subst readChunks.simps) (simp add: ReadFull_def)

lemma readChunks_IENDchunk: "readChunks (IENDchunk @ rest) = Inl NoPromptMetadata"
proof -
  have "wfChunk \<lparr>ctype = IEND, cdata = [], ccrc = ChecksumIEEE IEND\<rparr>"
    by (simp add: wfChunk_def)
  from readChunks_chunk [OF this, of rest] show ?thesis
    using tEXt_neq_IEND by (simp add: IENDchunk_chunkBytes [symmetric] promptText_def)
qed

lemma readChunks_chunks:
  assumes "validChunks cs"
  shows "readChunks (concat (map chunkBytes cs) @ rest) =
     (case firstPrompt cs of Some t \<Rightarrow> Inr t | None \<Rightarrow> readChunks rest)"
  using assms
proof (induction cs)
  case Nil
  then show ?case by simp
next
  case (Cons c cs)
  then have wf: "wfChunk c" and ty: "ctype c \<noteq> IEND" and v: "validChunks cs"
    by (simp_all add: validChunks_def)
  have "readChunks (concat (map chunkBytes (c # cs)) @ rest) =
      readChunks (chunkBytes c @ (concat (map chunkBytes cs) @ rest))"
    by simp
  also have "\<dots> = (case promptText c of Some t \<Rightarrow> Inr t
      | None \<Rightarrow> readChunks (concat (map chunkBytes cs) @ rest))"
    using ty by (simp add: readChunks_chunk [OF wf])
  finally show ?case
    using Cons.IH [OF v] by (simp split: option.splits)
qed

lemma ReadPromptFromPNG_sig: "ReadPromptFromPNG (PNGsig @ r) = readChunks r"
  by (simp add: ReadPromptFromPNG_def ReadFull_append)

lemma ReadPromptFromPNG_Container:
  assumes "validChunks cs"
  shows "ReadPromptFromPNG (Container cs) =
     (case firstPrompt cs of Some t \<Rightarrow> Inr t | None \<Rightarrow> Inl NoPromptMetadata)"
  using readChunks_IENDchunk [of "[]"]
  by (simp add: Container_def ReadPromptFromPNG_sig readChunks_chunks [OF assms]
      split: option.splits)

lemma ReadPromptFromPNG_found:
  assumes "validChunks cs" and "firstPrompt cs = Some t"
  shows "ReadPromptFromPNG (PNGsig @ concat (map chunkBytes cs) @ rest) = Inr t"
  using assms(2) by (simp add: ReadPromptFromPNG_sig readChunks_chunks [OF assms(1)])

section \<open>Embedding into a container\<close>

lemma createTextChunk_promptChunk: "createTextChunk Prompt t = chunkBytes (promptChunk t)"
  by (simp add: createTextChunk_def chunkBytes_def promptChunk_def)

lemma wfChunk_promptChunk: "length t + 7 < 2 ^ 32 \<Longrightarrow> wfChunk (promptChunk t)"
  by (simp add: wfChunk_def promptChunk_def)

lemma promptText_promptChunk: "promptText (promptChunk t) = Some t"
  by (simp add: promptText_def promptChunk_def)

lemma firstPrompt_append:
  "firstPrompt (cs @ ds) = (case firstPrompt cs of Some t \<Rightarrow> Some t | None \<Rightarrow> firstPrompt ds)"
  by (induction cs) (auto split: option.splits)

lemma validChunks_append: "validChunks (cs @ ds) \<longleftrightarrow> validChunks cs \<and> validChunks ds"
  by (auto simp: validChunks_def)

lemma validChunks_promptChunk: "length t + 7 < 2 ^ 32 \<Longrightarrow> validChunks [promptChunk t]"
  using tEXt_neq_IEND by (simp add: validChunks_def wfChunk_promptChunk) (simp add: promptChunk_def)

lemma insertBeforeIEND_append:
  "length z = 12 \<Longrightarrow> insertBeforeIEND (a @ z) ch = Inr (a @ ch @ z)"
  by (simp add: insertBeforeIEND_def)

lemma Container_isPNG: "8 \<le> length (Container cs) \<and> take 8 (Container cs) = PNGsig"
  by (simp add: Container_def)

lemma AddPromptToPNG_PNG:
  "8 \<le> length data \<Longrightarrow> take 8 data = PNGsig \<Longrightarrow>
   AddPromptToPNG conv data prompt = insertBeforeIEND data (createTextChunk Prompt prompt)"
  by (simp add: AddPromptToPNG_def)

lemma Container_snoc: "Container (cs @ [c]) = PNGsig @ concat (map chunkBytes cs) @ chunkBytes c @ IENDchunk"
  by (simp add: Container_def)

lemma AddPromptToPNG_Container:
  "AddPromptToPNG conv (Container cs) t = Inr (Container (cs @ [promptChunk t]))"
proof -
  have embed: "AddPromptToPNG conv (Container cs) t =
      insertBeforeIEND (Container cs) (createTextChunk Prompt t)"
    using Container_isPNG [of cs] by (simp add: AddPromptToPNG_PNG)
  have split: "Container cs = (PNGsig @ concat (map chunkBytes cs)) @ IENDchunk"
    by (simp add: Container_def)
  have "insertBeforeIEND (Container cs) (createTextChunk Prompt t) =
      Inr ((PNGsig @ concat (map chunkBytes cs)) @ createTextChunk Prompt t @ IENDchunk)"
    unfolding split by (rule insertBeforeIEND_append) simp
  then show ?thesis
    by (simp add: embed Container_snoc createTextChunk_promptChunk)
qed

lemma round_trip:
  assumes "validChunks cs" and "firstPrompt cs = None" and "length t + 7 < 2 ^ 32"
  shows "ReadPromptFromPNG (Container (cs @ [promptChunk t])) = Inr t"
proof -
  have v: "validChunks (cs @ [promptChunk t])"
    using assms(1) validChunks_promptChunk [OF assms(3)] by (simp add: validChunks_append)
  have f: "firstPrompt (cs @ [promptChunk t]) = Some t"
    using assms(2) by (simp add: firstPrompt_append promptText_promptChunk)
  show ?thesis
    by (simp only: ReadPromptFromPNG_Container [OF v] f option.case)
qed

text \<open>
  The bound on the text is needed: a text of \<open>2 ^ 32\<close> bytes makes the length field
  wrap to 7, the chunk data read back is \<open>Prompt\<close> and the null byte alone, and the
  text read is empty.
\<close>

lemma round_trip_length_wrap:
  assumes "length t = 2 ^ 32"
  shows "ReadPromptFromPNG (Container [promptChunk t]) = Inr []"
proof -
  have n: "(of_nat (7 + length t) :: uint32) = 7"
    by (simp add: assms)
  have t4: "t @ r \<noteq> []" "\<not> length (t @ r) < 4" for r :: bytes
    using assms by auto
  have r1: "ReadFull 4 (be32 7 @ r) = Inr (be32 7, r)" for r
    by (simp add: ReadFull_append)
  have r2: "ReadFull 4 (tEXt @ r) = Inr (tEXt, r)" for r
    by (simp add: ReadFull_append)
  have r3: "ReadFull 7 ((Prompt @ [0]) @ r) = Inr (Prompt @ [0], r)" for r
    by (rule ReadFull_append) simp
  have r4: "ReadFull 4 (t @ r) = Inr (take 4 (t @ r), drop 4 (t @ r))" for r
    using t4 [of r] by (simp add: ReadFull_def)
  have i: "IndexByte (Prompt @ [0]) 0 = 6"
    using IndexByte_append [OF zero_notin_Prompt, of "[]"] by simp
  have u: "unat (7 :: uint32) = 7" by simp
  have "readChunks (be32 7 @ tEXt @ (Prompt @ [0]) @ t @ r) = Inr []" for r
    by (subst readChunks.simps)
      (simp only: r1 r2 r3 r4 sum.case prod.case Uint32_be32 u Let_def i, simp)
  then show ?thesis
    by (simp add: Container_def ReadPromptFromPNG_sig chunkBytes_def promptChunk_def n
        del: of_nat_add)
qed

section \<open>A buffer that ends inside a chunk\<close>

lemma readChunks_incomplete:
  assumes "incompleteChunk bs"
  shows "\<exists>e. readChunks bs = Inl (IOError e)"
  apply (subst readChunks.simps)
  using assms
  apply (auto simp: incompleteChunk_def ReadFull_def split: sum.splits prod.splits if_splits)
  done

lemma readChunks_five:
  assumes "length bs = 5"
  shows "readChunks bs = Inl (IOError ErrUnexpectedEOF)"
  apply (subst readChunks.simps)
  using assms
  apply (auto simp: ReadFull_def split: sum.splits prod.splits if_splits)
  done

section \<open>Facts about the sample chunks and containers\<close>

lemma titleChunk_crcOK: "crcOK titleChunk"
  by (simp add: crcOK_def titleChunk_def tEXt_def crc_eval)

lemma titleChunk_valid: "validChunks [titleChunk]"
  by (simp add: validChunks_def wfChunk_def titleChunk_def tEXt_def IEND_def)

lemma titleChunk_promptText: "promptText titleChunk = None"
  by (simp add: promptText_def titleChunk_def Prompt_def)

lemma titleChunk_no_prompt: "firstPrompt [titleChunk] = None"
  by (simp add: titleChunk_promptText)

lemma minimalPNG_Container: "minimalPNG = Container []"
  by (simp add: minimalPNG_def Container_def PNGsig_def IENDchunk_def)

lemma createTextChunk_layout:
  "createTextChunk keyword text =
     be32 (of_nat (length (keyword @ [0] @ text))) @ tEXt @ (keyword @ [0] @ text) @
     be32 (ChecksumIEEE (tEXt @ keyword @ [0] @ text))"
  by (simp add: createTextChunk_def)

lemma createTextChunk_sunset:
  "createTextChunk Prompt aSunset =
     [0x00, 0x00, 0x00, 0x0F, 0x74, 0x45, 0x58, 0x74, 0x50, 0x72, 0x6F, 0x6D, 0x70, 0x74, 0x00,
      0x61, 0x20, 0x73, 0x75, 0x6E, 0x73, 0x65, 0x74, 0x04, 0x3B, 0x4B, 0x64]"
  by (simp add: createTextChunk_def Prompt_def aSunset_def tEXt_def be32_def crc_eval)

lemma sunsetPNG_Container: "sunsetPNG = Container [promptChunk aSunset]"
  using createTextChunk_sunset
  by (simp add: Container_def createTextChunk_promptChunk sunsetPNG_def PNGsig_def IENDchunk_def)

lemma ChecksumIEEE_sunset: "ChecksumIEEE (tEXt @ Prompt @ [0] @ aSunset) = 0x043B4B64"
  by (simp add: tEXt_def Prompt_def aSunset_def crc_eval)

section \<open>The claims\<close>

text \<open>
  In the claims, \<open>embed\<close> is \<open>AddPromptToPNG\<close>, \<open>read\<close> is \<open>ReadPromptFromPNG\<close>,
  \<open>encodeChunk\<close> is \<open>createTextChunk\<close> and \<open>insertBeforeTerminal\<close> is the splice
  \<open>insertBeforeIEND\<close>. \<open>RecordNotFound\<close> is the error \<open>NoPromptMetadata\<close>; the error
  of a buffer too short for the splice is \<open>PNGFileTooShort\<close>; a file that ends inside a
  chunk makes the read loop return \<open>io.EOF\<close> or \<open>io.ErrUnexpectedEOF\<close> unwrapped,
  \<open>IOError\<close> here.
\<close>

subsection \<open>C1: round trip\<close>

text \<open>
  C1. Claim: for every valid container \<open>b\<close> and every text \<open>t\<close>, reading the result
  of embedding \<open>t\<close> into \<open>b\<close> returns \<open>t\<close>, also when \<open>b\<close> already holds a
  \<open>Prompt\<close> chunk. The code does not do that: the new chunk goes before the terminal
  chunk, behind every chunk of \<open>b\<close>, and the read returns the first \<open>Prompt\<close> chunk.
  What holds: for every valid container with no \<open>Prompt\<close> chunk and every text whose
  chunk data (the text and seven bytes more) fits the 32-bit length field, embedding
  succeeds and reading the result returns the text.
\<close>

theorem C1_round_trip:
  assumes "validChunks cs" and "firstPrompt cs = None" and "length t + 7 < 2 ^ 32"
  shows "\<exists>r. AddPromptToPNG conv (Container cs) t = Inr r \<and> ReadPromptFromPNG r = Inr t"
  using AddPromptToPNG_Container [of conv cs t] round_trip [OF assms] by simp

theorem C1_round_trip_witness:
  "validChunks [titleChunk] \<and> firstPrompt [titleChunk] = None \<and>
   length aSunset + 7 < (2 :: nat) ^ 32 \<and>
   (\<exists>r. AddPromptToPNG Map.empty (Container [titleChunk]) aSunset = Inr r \<and>
        ReadPromptFromPNG r = Inr aSunset)"
proof -
  have l: "length aSunset + 7 < (2 :: nat) ^ 32"
    by (simp add: aSunset_def)
  from C1_round_trip [OF titleChunk_valid titleChunk_no_prompt l, of Map.empty]
  show ?thesis
    using titleChunk_valid titleChunk_no_prompt l by simp
qed

text \<open>
  The container with one \<open>Prompt\<close> chunk of text \<open>x\<close> (with its correct CRC) is valid;
  embedding \<open>y\<close> gives the container with both chunks, and the read returns \<open>x\<close>.
\<close>

theorem C1_round_trip_counterexample:
  "validChunks [promptChunk [0x78]] \<and> crcOK (promptChunk [0x78]) \<and>
   AddPromptToPNG Map.empty (Container [promptChunk [0x78]]) [0x79] =
     Inr (Container [promptChunk [0x78], promptChunk [0x79]]) \<and>
   ReadPromptFromPNG (Container [promptChunk [0x78], promptChunk [0x79]]) = Inr [0x78] \<and>
   [0x78] \<noteq> [0x79 :: byte]"
proof -
  have v: "validChunks [promptChunk [0x78]]"
    by (rule validChunks_promptChunk) simp
  have "validChunks [promptChunk [0x79]]"
    by (rule validChunks_promptChunk) simp
  with v have v2: "validChunks [promptChunk [0x78], promptChunk [0x79]]"
    using validChunks_append [of "[promptChunk [0x78]]" "[promptChunk [0x79]]"] by simp
  have f: "firstPrompt [promptChunk [0x78], promptChunk [0x79]] = Some [0x78]"
    by (simp add: promptText_promptChunk)
  have r: "ReadPromptFromPNG (Container [promptChunk [0x78], promptChunk [0x79]]) = Inr [0x78]"
    by (simp only: ReadPromptFromPNG_Container [OF v2] f option.case)
  have c: "crcOK (promptChunk [0x78])"
    by (simp add: crcOK_def promptChunk_def)
  show ?thesis
    using v c r AddPromptToPNG_Container [of Map.empty "[promptChunk [0x78]]" "[0x79]"] by simp
qed

subsection \<open>C2: first match\<close>

text \<open>
  C2. Claim: for every valid container \<open>b\<close> and texts \<open>t1\<close>, \<open>t2\<close>, embedding
  \<open>t1\<close>, then \<open>t2\<close>, then reading returns \<open>t1\<close>, and the read looks at no chunk
  after the first match. For a container that already holds a \<open>Prompt\<close> chunk the read
  returns that chunk's text, not \<open>t1\<close>. What holds: for every valid container with no
  \<open>Prompt\<close> chunk and every \<open>t1\<close> whose chunk data fits the length field, both
  embeddings succeed and the read returns \<open>t1\<close>, for every \<open>t2\<close>; and the read returns
  \<open>t1\<close> whatever bytes follow the chunk of \<open>t1\<close>, so nothing after the first match
  is looked at.
\<close>

theorem C2_first_match:
  assumes "validChunks cs" and "firstPrompt cs = None" and "length t1 + 7 < 2 ^ 32"
  shows "\<exists>r1 r2. AddPromptToPNG conv (Container cs) t1 = Inr r1 \<and>
      AddPromptToPNG conv r1 t2 = Inr r2 \<and>
      ReadPromptFromPNG r2 = Inr t1 \<and>
      (\<forall>rest. ReadPromptFromPNG (take (length r1 - 12) r1 @ rest) = Inr t1)"
proof -
  have v: "validChunks (cs @ [promptChunk t1])"
    using assms(1) validChunks_promptChunk [OF assms(3)] by (simp add: validChunks_append)
  have f: "firstPrompt (cs @ [promptChunk t1]) = Some t1"
    using assms(2) by (simp add: firstPrompt_append promptText_promptChunk)
  have any: "ReadPromptFromPNG (PNGsig @ concat (map chunkBytes (cs @ [promptChunk t1])) @ rest) = Inr t1"
    for rest by (rule ReadPromptFromPNG_found [OF v f])
  have e1: "AddPromptToPNG conv (Container cs) t1 = Inr (Container (cs @ [promptChunk t1]))"
    by (rule AddPromptToPNG_Container)
  have e2: "AddPromptToPNG conv (Container (cs @ [promptChunk t1])) t2 =
      Inr (Container ((cs @ [promptChunk t1]) @ [promptChunk t2]))"
    by (rule AddPromptToPNG_Container)
  have c2: "Container ((cs @ [promptChunk t1]) @ [promptChunk t2]) =
      PNGsig @ concat (map chunkBytes (cs @ [promptChunk t1])) @ (chunkBytes (promptChunk t2) @ IENDchunk)"
    by (simp add: Container_def)
  have r2: "ReadPromptFromPNG (Container ((cs @ [promptChunk t1]) @ [promptChunk t2])) = Inr t1"
    by (simp only: c2 any)
  have pre: "take (length (Container (cs @ [promptChunk t1])) - 12) (Container (cs @ [promptChunk t1])) =
      PNGsig @ concat (map chunkBytes (cs @ [promptChunk t1]))"
    by (simp add: Container_def)
  have "\<forall>rest. ReadPromptFromPNG
      (take (length (Container (cs @ [promptChunk t1])) - 12) (Container (cs @ [promptChunk t1])) @ rest) = Inr t1"
    using any by (simp only: pre append_assoc) simp
  with e1 e2 r2 show ?thesis by blast
qed

theorem C2_first_match_witness:
  "validChunks [titleChunk] \<and> firstPrompt [titleChunk] = None \<and>
   length [0x79 :: byte] + 7 < (2 :: nat) ^ 32 \<and>
   (\<exists>r1 r2. AddPromptToPNG Map.empty (Container [titleChunk]) [0x79] = Inr r1 \<and>
      AddPromptToPNG Map.empty r1 [0x7A] = Inr r2 \<and>
      ReadPromptFromPNG r2 = Inr [0x79] \<and>
      (\<forall>rest. ReadPromptFromPNG (take (length r1 - 12) r1 @ rest) = Inr [0x79]))"
proof -
  have l: "length [0x79 :: byte] + 7 < (2 :: nat) ^ 32" by simp
  from C2_first_match [OF titleChunk_valid titleChunk_no_prompt l, of Map.empty "[0x7A]"]
  show ?thesis
    using titleChunk_valid titleChunk_no_prompt l by simp
qed

text \<open>
  The container with one \<open>Prompt\<close> chunk of text \<open>x\<close>: embedding \<open>y\<close>, then
  \<open>z\<close>, then reading returns \<open>x\<close>, which is not \<open>y\<close>.
\<close>

theorem C2_first_match_counterexample:
  "validChunks [promptChunk [0x78]] \<and>
   AddPromptToPNG Map.empty (Container [promptChunk [0x78]]) [0x79] =
     Inr (Container [promptChunk [0x78], promptChunk [0x79]]) \<and>
   AddPromptToPNG Map.empty (Container [promptChunk [0x78], promptChunk [0x79]]) [0x7A] =
     Inr (Container [promptChunk [0x78], promptChunk [0x79], promptChunk [0x7A]]) \<and>
   ReadPromptFromPNG (Container [promptChunk [0x78], promptChunk [0x79], promptChunk [0x7A]]) =
     Inr [0x78] \<and>
   [0x78] \<noteq> [0x79 :: byte]"
proof -
  have v: "validChunks [promptChunk [0x78]]"
    by (rule validChunks_promptChunk) simp
  have f: "firstPrompt [promptChunk [0x78]] = Some [0x78]"
    by (simp add: promptText_promptChunk)
  have "ReadPromptFromPNG (PNGsig @ concat (map chunkBytes [promptChunk [0x78]]) @
      (chunkBytes (promptChunk [0x79]) @ chunkBytes (promptChunk [0x7A]) @ IENDchunk)) = Inr [0x78]"
    by (rule ReadPromptFromPNG_found [OF v f])
  then have r: "ReadPromptFromPNG (Container [promptChunk [0x78], promptChunk [0x79], promptChunk [0x7A]]) =
      Inr [0x78]"
    by (simp add: Container_def)
  show ?thesis
    using v r AddPromptToPNG_Container [of Map.empty "[promptChunk [0x78]]" "[0x79]"]
      AddPromptToPNG_Container [of Map.empty "[promptChunk [0x78], promptChunk [0x79]]" "[0x7A]"]
    by simp
qed

subsection \<open>C3: the splice\<close>

text \<open>
  C3. For every buffer of at least twelve bytes and every encoded chunk, the splice
  returns the buffer without its last twelve bytes, then the chunk, then the last twelve
  bytes; the chunk sequence is not parsed, so this holds for any bytes. For every buffer of
  fewer than twelve bytes it fails with the too-short error. \<open>AddPromptToPNG\<close> on a buffer
  with the PNG signature is this splice with the chunk of the prompt.
\<close>

theorem C3_insert_before_terminal:
  "(12 \<le> length data \<longrightarrow>
      insertBeforeIEND data chunk =
        Inr (take (length data - 12) data @ chunk @ drop (length data - 12) data)) \<and>
   (length data < 12 \<longrightarrow> insertBeforeIEND data chunk = Inl PNGFileTooShort) \<and>
   (8 \<le> length data \<and> take 8 data = PNGsig \<longrightarrow>
      AddPromptToPNG conv data prompt = insertBeforeIEND data (createTextChunk Prompt prompt))"
  by (simp add: insertBeforeIEND_def AddPromptToPNG_PNG Let_def)

theorem C3_insert_before_terminal_witness:
  "12 \<le> length (Container []) \<and>
   insertBeforeIEND (Container []) [1, 2, 3] = Inr (PNGsig @ [1, 2, 3] @ IENDchunk) \<and>
   length PNGsig < 12 \<and> insertBeforeIEND PNGsig [1, 2, 3] = Inl PNGFileTooShort \<and>
   8 \<le> length PNGsig \<and> take 8 PNGsig = PNGsig \<and>
   AddPromptToPNG Map.empty PNGsig [0x78] = Inl PNGFileTooShort"
  using C3_insert_before_terminal [of "Container []" "[1, 2, 3]" Map.empty "[0x78]"]
    C3_insert_before_terminal [of PNGsig "[1, 2, 3]" Map.empty "[0x78]"]
    C3_insert_before_terminal [of PNGsig "createTextChunk Prompt [0x78]" Map.empty "[0x78]"]
  by (simp add: Container_def)

subsection \<open>C4: chunk encoding\<close>

text \<open>
  C4. Claim: for every type tag and data the encoder gives \<open>12 + len(data)\<close> bytes: the
  length as a big-endian \<open>u32\<close> equal to \<open>len(data)\<close>, the type, the data, and the
  big-endian CRC-32 (IEEE 802.3) of type and data; equal arguments give equal bytes. The
  code has one encoder, \<open>createTextChunk\<close>, whose type is always \<open>tEXt\<close> and whose
  data is the keyword, a null byte and the text. Its length field is \<open>uint32(len(data))\<close>,
  that is \<open>len(data) mod 2 ^ 32\<close>, so it equals \<open>len(data)\<close> only below \<open>2 ^ 32\<close>.
  What holds: the layout below for every keyword and text, with the length field equal to
  \<open>len(data) mod 2 ^ 32\<close>, hence to \<open>len(data)\<close> when that is below \<open>2 ^ 32\<close>. The
  function reads no state, so it is a function of its two arguments (last conjunct).
\<close>

theorem C4_chunk_encoding:
  assumes "data = keyword @ [0] @ text"
  shows "createTextChunk keyword text =
      be32 (of_nat (length data)) @ tEXt @ data @ be32 (ChecksumIEEE (tEXt @ data)) \<and>
    length (createTextChunk keyword text) = 12 + length data \<and>
    unat (Uint32 (take 4 (createTextChunk keyword text))) = length data mod 2 ^ 32 \<and>
    (length data < 2 ^ 32 \<longrightarrow> unat (Uint32 (take 4 (createTextChunk keyword text))) = length data) \<and>
    take 4 (drop 4 (createTextChunk keyword text)) = tEXt \<and>
    take (length data) (drop 8 (createTextChunk keyword text)) = data \<and>
    Uint32 (drop (8 + length data) (createTextChunk keyword text)) = ChecksumIEEE (tEXt @ data) \<and>
    (\<forall>keyword' text'. keyword' = keyword \<and> text' = text \<longrightarrow>
       createTextChunk keyword' text' = createTextChunk keyword text)"
proof -
  have lay: "createTextChunk keyword text =
      be32 (of_nat (length data)) @ tEXt @ data @ be32 (ChecksumIEEE (tEXt @ data))"
    by (simp add: assms createTextChunk_layout)
  have len: "unat (Uint32 (take 4 (createTextChunk keyword text))) = length data mod 2 ^ 32"
    by (simp add: lay Uint32_be32 unat_of_nat)
  have crc: "Uint32 (drop (8 + length data) (createTextChunk keyword text)) = ChecksumIEEE (tEXt @ data)"
    by (simp add: lay Uint32_be32)
  have "take 4 (drop 4 (createTextChunk keyword text)) = tEXt"
    and "take (length data) (drop 8 (createTextChunk keyword text)) = data"
    and "length (createTextChunk keyword text) = 12 + length data"
    by (simp_all add: lay)
  with lay len crc show ?thesis by simp
qed

theorem C4_chunk_encoding_witness:
  "length (Prompt @ [0] @ aSunset) < 2 ^ 32 \<and>
   length (createTextChunk Prompt aSunset) = 12 + 15 \<and>
   unat (Uint32 (take 4 (createTextChunk Prompt aSunset))) = 15 \<and>
   Uint32 (drop 23 (createTextChunk Prompt aSunset)) = 0x043B4B64"
proof -
  have l: "length (Prompt @ [0] @ aSunset) = 15"
    by (simp add: aSunset_def)
  note c = ChecksumIEEE_sunset
  from C4_chunk_encoding [OF refl, of Prompt aSunset]
  have "length (createTextChunk Prompt aSunset) = 12 + length (Prompt @ [0] @ aSunset)"
    and "length (Prompt @ [0] @ aSunset) < 2 ^ 32 \<longrightarrow>
      unat (Uint32 (take 4 (createTextChunk Prompt aSunset))) = length (Prompt @ [0] @ aSunset)"
    and "Uint32 (drop (8 + length (Prompt @ [0] @ aSunset)) (createTextChunk Prompt aSunset)) =
      ChecksumIEEE (tEXt @ Prompt @ [0] @ aSunset)"
    by blast+
  then show ?thesis
    by (simp only: l c) simp
qed

text \<open>
  The keyword \<open>Prompt\<close> and a text of \<open>2 ^ 32\<close> null bytes: the data has
  4294967303 bytes and the length field holds 7.
\<close>

theorem C4_chunk_encoding_counterexample:
  "length (Prompt @ [0] @ replicate 4294967296 (0 :: byte)) = 4294967303 \<and>
   unat (Uint32 (take 4 (createTextChunk Prompt (replicate 4294967296 0)))) = 7"
proof -
  have "unat (Uint32 (take 4 (createTextChunk Prompt (replicate 4294967296 0)))) =
      unat (of_nat (length (Prompt @ [0] @ replicate 4294967296 (0 :: byte))) :: uint32)"
    by (simp add: createTextChunk_layout Uint32_be32)
  also have "\<dots> = 4294967303 mod 2 ^ 32"
    by (simp only: unat_of_nat length_append length_replicate length_Prompt list.size) simp
  finally show ?thesis by simp
qed

subsection \<open>C5: truncated buffers\<close>

text \<open>
  C5. Claim: every buffer with the signature that ends before a terminal chunk, be it
  inside a chunk header, inside the data, or at a chunk boundary, makes the read fail with
  the truncation error and not with the not-found error. The code turns \<open>io.EOF\<close> on the
  length field into the not-found error (line 135), so a buffer that ends at a chunk
  boundary gives not-found; and a buffer with a \<open>Prompt\<close> chunk before its end gives
  that chunk's text. What holds, for a buffer made of the signature, complete chunks
  that are neither \<open>Prompt\<close> chunks nor terminal, and a rest \<open>bs\<close>: when \<open>bs\<close>
  begins a chunk and ends inside it (header, data or CRC), the read fails with \<open>io.EOF\<close>
  or \<open>io.ErrUnexpectedEOF\<close> unwrapped; when \<open>bs\<close> has five bytes, with
  \<open>io.ErrUnexpectedEOF\<close>; when \<open>bs\<close> is empty, with the not-found error.
\<close>

theorem C5_truncation:
  assumes "validChunks cs" and "firstPrompt cs = None"
  shows "(incompleteChunk bs \<longrightarrow>
      (ReadPromptFromPNG (PNGsig @ concat (map chunkBytes cs) @ bs) = Inl (IOError EOF) \<or>
       ReadPromptFromPNG (PNGsig @ concat (map chunkBytes cs) @ bs) = Inl (IOError ErrUnexpectedEOF))) \<and>
    (length bs = 5 \<longrightarrow>
      ReadPromptFromPNG (PNGsig @ concat (map chunkBytes cs) @ bs) = Inl (IOError ErrUnexpectedEOF)) \<and>
    ReadPromptFromPNG (PNGsig @ concat (map chunkBytes cs)) = Inl NoPromptMetadata"
proof -
  have skip: "ReadPromptFromPNG (PNGsig @ concat (map chunkBytes cs) @ r) = readChunks r" for r
    using assms(2) by (simp add: ReadPromptFromPNG_sig readChunks_chunks [OF assms(1)])
  have "readChunks bs = Inl (IOError EOF) \<or> readChunks bs = Inl (IOError ErrUnexpectedEOF)"
    if "incompleteChunk bs"
  proof -
    from readChunks_incomplete [OF that] obtain e where "readChunks bs = Inl (IOError e)" ..
    then show ?thesis by (cases e) simp_all
  qed
  moreover have "ReadPromptFromPNG (PNGsig @ concat (map chunkBytes cs)) = Inl NoPromptMetadata"
    using skip [of "[]"] by (simp add: readChunks_Nil)
  ultimately show ?thesis
    by (simp add: skip readChunks_five)
qed

theorem C5_truncation_witness:
  "validChunks [titleChunk] \<and> firstPrompt [titleChunk] = None \<and>
   incompleteChunk [0, 0, 0, 0, 0x49] \<and> length [0, 0, 0, 0, 0x49 :: byte] = 5 \<and>
   ReadPromptFromPNG (PNGsig @ chunkBytes titleChunk @ [0, 0, 0, 0, 0x49]) =
     Inl (IOError ErrUnexpectedEOF) \<and>
   ReadPromptFromPNG (PNGsig @ chunkBytes titleChunk) = Inl NoPromptMetadata"
proof -
  have i: "incompleteChunk [0, 0, 0, 0, 0x49]"
    by (simp add: incompleteChunk_def)
  from C5_truncation [OF titleChunk_valid titleChunk_no_prompt, of "[0, 0, 0, 0, 0x49]"]
  show ?thesis
    using titleChunk_valid titleChunk_no_prompt i by simp
qed

text \<open>
  The signature and one complete \<open>Title\<close> chunk, and the signature alone: both end at a
  chunk boundary with no terminal chunk, and the read fails with the not-found error. The
  signature and one \<open>Prompt\<close> chunk with no terminal chunk: the read succeeds.
\<close>

theorem C5_truncation_counterexample:
  "ReadPromptFromPNG (PNGsig @ chunkBytes titleChunk) = Inl NoPromptMetadata \<and>
   ReadPromptFromPNG PNGsig = Inl NoPromptMetadata \<and>
   ReadPromptFromPNG (PNGsig @ chunkBytes (promptChunk [0x78])) = Inr [0x78]"
proof -
  have "ReadPromptFromPNG (PNGsig @ concat (map chunkBytes [titleChunk]) @ []) = Inl NoPromptMetadata"
    using titleChunk_no_prompt
    by (simp only: ReadPromptFromPNG_sig readChunks_chunks [OF titleChunk_valid] option.case
        readChunks_Nil)
  moreover have "ReadPromptFromPNG (PNGsig @ []) = Inl NoPromptMetadata"
    by (simp only: ReadPromptFromPNG_sig readChunks_Nil)
  moreover have "ReadPromptFromPNG (PNGsig @ concat (map chunkBytes [promptChunk [0x78]]) @ []) = Inr [0x78]"
    by (rule ReadPromptFromPNG_found [OF validChunks_promptChunk]) (simp_all add: promptText_promptChunk)
  ultimately show ?thesis by simp
qed

subsection \<open>C6: the concrete scenario\<close>

text \<open>
  C6. Claim: embedding \<open>a sunset\<close> into the minimal container gives a buffer of the
  original length plus 12 plus 8, and reading it returns \<open>a sunset\<close>. The chunk data is
  \<open>Prompt\<close>, a null byte and the text, 15 bytes and not 8. What holds: the result is the
  47 bytes \<open>sunsetPNG\<close>, the original 20 plus 12 plus 15, and reading it returns
  \<open>a sunset\<close>.
\<close>

theorem C6_concrete_scenario:
  "AddPromptToPNG conv minimalPNG aSunset = Inr sunsetPNG \<and>
   length (Prompt @ [0] @ aSunset) = 15 \<and>
   length sunsetPNG = length minimalPNG + 12 + 15 \<and>
   ReadPromptFromPNG sunsetPNG = Inr aSunset"
proof -
  have e: "AddPromptToPNG conv minimalPNG aSunset = Inr sunsetPNG"
    using AddPromptToPNG_Container [of conv "[]" aSunset]
    by (simp add: minimalPNG_Container sunsetPNG_Container)
  have "validChunks []" and "firstPrompt [] = None" and "length aSunset + 7 < 2 ^ 32"
    by (simp_all add: validChunks_def aSunset_def)
  from round_trip [OF this] have r: "ReadPromptFromPNG sunsetPNG = Inr aSunset"
    by (simp add: sunsetPNG_Container)
  have "length sunsetPNG = 47" and "length minimalPNG = 20" and "length aSunset = 8"
    by (simp_all add: sunsetPNG_def minimalPNG_def aSunset_def)
  with e r show ?thesis by simp
qed

text \<open>The result has 47 bytes; the original length plus 12 plus 8 is 40.\<close>

theorem C6_concrete_scenario_counterexample:
  "AddPromptToPNG Map.empty minimalPNG aSunset = Inr sunsetPNG \<and>
   length sunsetPNG = 47 \<and> length minimalPNG + 12 + 8 = 40"
proof -
  have e: "AddPromptToPNG Map.empty minimalPNG aSunset = Inr sunsetPNG"
    using AddPromptToPNG_Container [of Map.empty "[]" aSunset]
    by (simp add: minimalPNG_Container sunsetPNG_Container)
  have "length sunsetPNG = 47" and "length minimalPNG = 20"
    by (simp_all add: sunsetPNG_def minimalPNG_def)
  with e show ?thesis by simp
qed

subsection \<open>C7: not found\<close>

text \<open>
  C7. For every valid container with no \<open>Prompt\<close> chunk before the terminal chunk, the
  read fails with the not-found error, and with no other.
\<close>

theorem C7_not_found:
  assumes "validChunks cs" and "firstPrompt cs = None"
  shows "ReadPromptFromPNG (Container cs) = Inl NoPromptMetadata"
  using assms(2) by (simp add: ReadPromptFromPNG_Container [OF assms(1)])

theorem C7_not_found_witness:
  "validChunks [titleChunk] \<and> firstPrompt [titleChunk] = None \<and>
   ReadPromptFromPNG (Container [titleChunk]) = Inl NoPromptMetadata"
  using C7_not_found [OF titleChunk_valid titleChunk_no_prompt]
    titleChunk_valid titleChunk_no_prompt by simp

subsection \<open>C8: the CRC is not checked on read\<close>

text \<open>
  C8. Claim: for every container that holds a \<open>Prompt\<close> chunk whose CRC field differs
  from the checksum of its type and data, the read does not fail on the mismatch and
  returns that chunk's text. The read returns at the first \<open>Prompt\<close> chunk in file
  order, so a chunk with a wrong CRC that stands behind another \<open>Prompt\<close> chunk is
  never reached and its text is not returned. What holds: for every container whose
  first \<open>Prompt\<close> chunk (no \<open>Prompt\<close> chunk among the valid chunks before it) has a
  CRC field different from the checksum of its type and data, the read does not fail and
  returns the text of that chunk, whatever chunks follow; the result is the one read
  with the correct CRC in place.
\<close>

theorem C8_crc_not_validated:
  assumes "validChunks cs" and "firstPrompt cs = None"
    and "wfChunk c" and "ctype c = tEXt" and "cdata c = Prompt @ [0] @ t"
    and "ccrc c \<noteq> ChecksumIEEE (ctype c @ cdata c)"
  shows "ReadPromptFromPNG (Container (cs @ c # ds)) = Inr t \<and>
    ReadPromptFromPNG (Container (cs @ [c\<lparr>ccrc := ChecksumIEEE (ctype c @ cdata c)\<rparr>])) =
      ReadPromptFromPNG (Container (cs @ [c]))"
proof -
  from assms(4,5) have "promptText c = Some t"
    by (simp add: promptText_def)
  with assms(2) have f: "firstPrompt (cs @ [c]) = Some t"
    by (simp add: firstPrompt_append)
  have v: "validChunks (cs @ [c])"
    using assms(1,3,4) tEXt_neq_IEND by (simp add: validChunks_def)
  have "Container (cs @ c # ds) =
      PNGsig @ concat (map chunkBytes (cs @ [c])) @ (concat (map chunkBytes ds) @ IENDchunk)"
    by (simp add: Container_def)
  then have found: "ReadPromptFromPNG (Container (cs @ c # ds)) = Inr t"
    by (simp only: ReadPromptFromPNG_found [OF v f])
  let ?c' = "c\<lparr>ccrc := ChecksumIEEE (ctype c @ cdata c)\<rparr>"
  from assms(4,5) have "promptText ?c' = Some t"
    by (simp add: promptText_def)
  with assms(2) have f': "firstPrompt (cs @ [?c']) = Some t"
    by (simp add: firstPrompt_append)
  have v': "validChunks (cs @ [?c'])"
    using assms(1,3,4) tEXt_neq_IEND by (simp add: validChunks_def wfChunk_def)
  have "ReadPromptFromPNG (Container (cs @ [?c'])) = ReadPromptFromPNG (Container (cs @ [c]))"
    by (simp only: ReadPromptFromPNG_Container [OF v] ReadPromptFromPNG_Container [OF v'] f f')
  with found show ?thesis by simp
qed

theorem C8_crc_not_validated_witness:
  "validChunks [titleChunk] \<and> firstPrompt [titleChunk] = None \<and> wfChunk corruptChunk \<and>
   ctype corruptChunk = tEXt \<and> cdata corruptChunk = Prompt @ [0] @ aSunset \<and>
   ChecksumIEEE (ctype corruptChunk @ cdata corruptChunk) = 0x043B4B64 \<and>
   ccrc corruptChunk = 0xDEADBEEF \<and>
   ReadPromptFromPNG (Container [titleChunk, corruptChunk]) = Inr aSunset"
proof -
  have w: "wfChunk corruptChunk" and ty: "ctype corruptChunk = tEXt"
    and d: "cdata corruptChunk = Prompt @ [0] @ aSunset"
    and k: "ccrc corruptChunk = 0xDEADBEEF"
    by (simp_all add: corruptChunk_def wfChunk_def aSunset_def)
  have crc: "ChecksumIEEE (ctype corruptChunk @ cdata corruptChunk) = 0x043B4B64"
    using ChecksumIEEE_sunset by (simp add: corruptChunk_def)
  have bad: "ccrc corruptChunk \<noteq> ChecksumIEEE (ctype corruptChunk @ cdata corruptChunk)"
    by (simp only: crc k) simp
  from C8_crc_not_validated [OF titleChunk_valid titleChunk_no_prompt w ty d bad, of "[]"]
  show ?thesis
    using titleChunk_valid titleChunk_no_prompt w ty d crc k by simp
qed

text \<open>
  The container with a \<open>Prompt\<close> chunk of text \<open>x\<close> and, behind it, the
  \<open>Prompt\<close> chunk of text \<open>a sunset\<close> with the wrong CRC: the read returns \<open>x\<close>,
  not the text of the chunk with the wrong CRC.
\<close>

theorem C8_crc_not_validated_counterexample:
  "validChunks [promptChunk [0x78]] \<and> wfChunk corruptChunk \<and> ctype corruptChunk = tEXt \<and>
   cdata corruptChunk = Prompt @ [0] @ aSunset \<and>
   ccrc corruptChunk \<noteq> ChecksumIEEE (ctype corruptChunk @ cdata corruptChunk) \<and>
   ReadPromptFromPNG (Container [promptChunk [0x78], corruptChunk]) = Inr [0x78] \<and>
   [0x78] \<noteq> aSunset"
proof -
  have v: "validChunks [promptChunk [0x78]]"
    by (rule validChunks_promptChunk) simp
  have f: "firstPrompt [promptChunk [0x78]] = Some [0x78]"
    by (simp add: promptText_promptChunk)
  have w: "wfChunk corruptChunk" and ty: "ctype corruptChunk = tEXt"
    and d: "cdata corruptChunk = Prompt @ [0] @ aSunset"
    and k: "ccrc corruptChunk = 0xDEADBEEF"
    by (simp_all add: corruptChunk_def wfChunk_def aSunset_def)
  have crc: "ChecksumIEEE (ctype corruptChunk @ cdata corruptChunk) = 0x043B4B64"
    using ChecksumIEEE_sunset by (simp add: corruptChunk_def)
  have bad: "ccrc corruptChunk \<noteq> ChecksumIEEE (ctype corruptChunk @ cdata corruptChunk)"
    by (simp only: crc k) simp
  have "ReadPromptFromPNG (PNGsig @ concat (map chunkBytes [promptChunk [0x78]]) @
      (chunkBytes corruptChunk @ IENDchunk)) = Inr [0x78]"
    by (rule ReadPromptFromPNG_found [OF v f])
  then have r: "ReadPromptFromPNG (Container [promptChunk [0x78], corruptChunk]) = Inr [0x78]"
    by (simp add: Container_def)
  have n: "[0x78] \<noteq> aSunset"
    by (simp add: aSunset_def)
  show ?thesis
    using v w ty d bad r n by simp
qed

text \<open>In general the read of a valid container does not depend on any CRC field.\<close>

lemma crc_irrelevant:
  assumes "validChunks cs"
  shows "ReadPromptFromPNG (Container (map (ccrc_update f) cs)) = ReadPromptFromPNG (Container cs)"
proof -
  have v: "validChunks (map (ccrc_update f) cs)"
    using assms by (simp add: validChunks_def wfChunk_def)
  have "firstPrompt (map (ccrc_update f) cs) = firstPrompt cs"
    by (induction cs) (simp_all add: promptText_def)
  then show ?thesis
    by (simp only: ReadPromptFromPNG_Container [OF v] ReadPromptFromPNG_Container [OF assms])
qed

subsection \<open>C9: structure preserved\<close>

text \<open>
  C9. For every container and text, embedding succeeds, the result begins with the eight
  bytes of the signature, as the input does, and its last twelve bytes are the terminal
  chunk, the same bytes as the last twelve of the input; these twelve bytes are the
  encoding of the chunk of type \<open>IEND\<close> with no data and its correct CRC.
\<close>

theorem C9_structure_preserved:
  "\<exists>r. AddPromptToPNG conv (Container cs) t = Inr r \<and>
       take 8 r = PNGsig \<and> take 8 r = take 8 (Container cs) \<and>
       drop (length r - 12) r = IENDchunk \<and>
       drop (length r - 12) r = drop (length (Container cs) - 12) (Container cs) \<and>
       IENDchunk = chunkBytes \<lparr>ctype = IEND, cdata = [], ccrc = ChecksumIEEE IEND\<rparr>"
proof -
  have "take 8 (Container ds) = PNGsig" for ds
    by (simp add: Container_def)
  moreover have "drop (length (Container ds) - 12) (Container ds) = IENDchunk" for ds
    by (simp add: Container_def)
  ultimately show ?thesis
    using AddPromptToPNG_Container [of conv cs t] IENDchunk_chunkBytes by simp
qed

subsection \<open>C10: no null byte, or an empty keyword\<close>



end
